theory Spec2Isabelle
  imports Main
begin

section \<open>The warehouse model: data\<close>

text \<open>
  The development embeds \<^verbatim>\<open>WarehouseModel.ts\<close>: credential resolution, the
  attribute values of an organization member, the per-project registry of warehouse
  clients, the results cache in front of the warehouse, and the two entry points
  \<^verbatim>\<open>runQuery\<close> and \<^verbatim>\<open>runMetricQuery\<close>.

  A rejected promise or a thrown exception is a value \<open>Inl e\<close>. The two errors the class
  raises itself keep their names; an exception coming out of a collaborator (tunnel,
  query compiler, object store client, warehouse driver) is \<open>Thrown\<close> with its message.
\<close>

datatype error =
    NotExistsError string
  | UnexpectedServerError string
  | Thrown string

text \<open>
  Modelled from the spec: the declaration of \<^verbatim>\<open>CreateWarehouseCredentials\<close> is in the
  common package. The spec describes a connection descriptor (type, host, auth secrets,
  optional SSH config); the class itself reads only \<^verbatim>\<open>credentials.type\<close> and compares
  whole descriptors.
\<close>

record warehouse_credentials =
  cred_type :: string
  host :: string
  port :: nat
  useSshTunnel :: bool
  secrets :: "(string \<times> string) list"

text \<open>
  Modelled from the spec: \<^verbatim>\<open>deepEqual\<close> of the common package is the deep structural
  comparison of two plain values, which on a record of plain fields is equality.
\<close>

definition deepEqual :: "warehouse_credentials \<Rightarrow> warehouse_credentials \<Rightarrow> bool" where
  "deepEqual a b = (a = b)"

text \<open>
  A warehouse client is an object: two clients built from the same credentials are still
  two instances. The instance is the number it got when it was constructed.
\<close>

record warehouse_client =
  client_id :: nat
  credentials :: warehouse_credentials

text \<open>The tunnel object of one call, \<^verbatim>\<open>new SshTunnel(credentials)\<close>.\<close>

record ssh_tunnel =
  originalCredentials :: warehouse_credentials

type_synonym tags = "(string \<times> string) list"
type_synonym row = "(string \<times> string) list"

record warehouse_results =
  result_fields :: "string list"
  rows :: "row list"

record results_metadata =
  LastModified :: "int option"

record cache_metadata =
  cacheHit :: bool
  cacheUpdatedTime :: "int option"

record cached_or_warehouse_results =
  result_rows :: "row list"
  cacheMetadata :: cache_metadata

record metric_query_results =
  mq_rows :: "row list"
  mq_cacheMetadata :: cache_metadata
  mq_query :: string
  hasExampleMetric :: bool
  warehouseType :: string

record results_cache_config =
  enabled :: bool
  cacheStateTimeSeconds :: int

record lightdash_config =
  resultsCache :: "results_cache_config option"

text \<open>
  The values a property read and \<^verbatim>\<open>||\<close> can produce in
  \<^verbatim>\<open>getAttributeValuesForOrgMember\<close>: a string, \<^verbatim>\<open>null\<close>, \<^verbatim>\<open>undefined\<close>, or a
  member that a plain object inherits from \<^verbatim>\<open>Object.prototype\<close> (a function or an
  object, never a string).
\<close>

datatype js_value = JString string | JNull | JUndefined | JInherited string

section \<open>The collaborators\<close>

text \<open>
  Everything the class calls but does not define is a field of the environment: the
  three database queries, the encryption service, JSON parsing and printing, the tunnel,
  the query compiler, the warehouse driver, the object store client, the hash, the clock
  and the process-wide configuration. A call that can throw or reject returns a sum or an
  option.

  \<^item> \<open>db_warehouse_credentials p\<close>: the awaited join for project \<open>p\<close>, either the rows
    \<open>(warehouse_type, encrypted_credentials)\<close> or, when the query rejects, the driver's
    message; \<open>db_attribute_values org\<close>: the rows \<open>(name, attribute_default)\<close> or the
    message; \<open>db_user_values org user\<close>: the rows \<open>(name, value)\<close> or the message. None
    of the three awaits is inside a \<^verbatim>\<open>try\<close>, so a rejection leaves the method as it is:
    \<open>Thrown\<close> with the message.
  \<^item> \<open>decrypt\<close> and \<open>json_parse_credentials\<close>: \<open>None\<close> when the call throws.
  \<^item> \<open>open_tunnel n\<close>: the local endpoint (host, port) of the tunnel session number \<open>n\<close>
    of this process, or the failure to open it; \<open>close_tunnel\<close>: the failure of the
    teardown, if any.
  \<^item> \<open>client_runQuery\<close>: \<^verbatim>\<open>warehouseClient.runQuery(query, queryTags)\<close>.
  \<^item> \<open>s3_getResultsMetadata\<close>: the metadata request; a result may lack the entry or
    its \<^verbatim>\<open>LastModified\<close>. \<open>s3_getResults\<close>: the payload request followed by
    \<^verbatim>\<open>Body?.transformToString()\<close>, \<open>Inl\<close> when either throws and \<open>None\<close> when there
    is no body. \<open>s3_uploadResults\<close>: how the upload ends, \<open>None\<close> for success.
  \<^item> \<open>json_parse_rows\<close>: \<^verbatim>\<open>JSON.parse(stringResults).rows\<close>, \<open>None\<close> when it throws;
    \<open>json_stringify\<close>: \<^verbatim>\<open>JSON.stringify(warehouseResults)\<close>, which throws on a value
    it cannot print and on a result too long for one string.
  \<^item> \<open>sha256_hex\<close>: the SHA-256 hex digest of a byte string.
  \<^item> \<open>now\<close>: \<^verbatim>\<open>new Date().getTime()\<close> at the only place the class reads the clock.
\<close>

record world =
  db_warehouse_credentials :: "string \<Rightarrow> string + (string \<times> string) list"
  db_attribute_values :: "string \<Rightarrow> string + (string \<times> string option) list"
  db_user_values :: "string \<Rightarrow> string \<Rightarrow> string + (string \<times> string) list"
  decrypt :: "string \<Rightarrow> string option"
  json_parse_credentials :: "string \<Rightarrow> warehouse_credentials option"
  open_tunnel :: "nat \<Rightarrow> warehouse_credentials \<Rightarrow> error + string \<times> nat"
  close_tunnel :: "warehouse_credentials \<Rightarrow> error option"
  compileMetricQuery :: "string \<Rightarrow> string \<Rightarrow> warehouse_client \<Rightarrow> error + string"
  buildQuery :: "string \<Rightarrow> string \<Rightarrow> warehouse_client \<Rightarrow> (string \<rightharpoonup> js_value)
                  \<Rightarrow> error + string \<times> bool"
  client_runQuery :: "warehouse_client \<Rightarrow> string \<Rightarrow> tags option \<Rightarrow> error + warehouse_results"
  sha256_hex :: "string \<Rightarrow> string"
  now :: int
  lightdashConfig :: lightdash_config
  s3_getResultsMetadata :: "string \<Rightarrow> error + results_metadata option"
  s3_getResults :: "string \<Rightarrow> error + string option"
  s3_uploadResults :: "string \<Rightarrow> string \<Rightarrow> tags option \<Rightarrow> error option"
  json_parse_rows :: "string \<Rightarrow> row list option"
  json_stringify :: "warehouse_results \<Rightarrow> error + string"

section \<open>Credential store\<close>

text \<open>
  \<^verbatim>\<open>getWarehouseCredentialsForProject\<close>: the awaited query stands before the
  \<^verbatim>\<open>try\<close>, so its rejection is the method's; then the first row of the join, or
  \<^verbatim>\<open>NotExistsError\<close> when there is none; decryption and \<^verbatim>\<open>JSON.parse\<close> sit in one
  \<^verbatim>\<open>try\<close> whose handler throws \<^verbatim>\<open>UnexpectedServerError\<close>. A row is
  \<open>(warehouse_type, encrypted_credentials)\<close>.
\<close>

definition getWarehouseCredentialsForProject :: "world \<Rightarrow> string \<Rightarrow> error + warehouse_credentials" where
  "getWarehouseCredentialsForProject w projectUuid =
     (case db_warehouse_credentials w projectUuid of
        Inl rejected \<Rightarrow> Inl (Thrown rejected)
      | Inr [] \<Rightarrow> Inl (NotExistsError ''Cannot find any warehouse credentials for project.'')
      | Inr (row # _) \<Rightarrow>
          (case decrypt w (snd row) of
             None \<Rightarrow> Inl (UnexpectedServerError
                 ''Unexpected error: failed to parse warehouse credentials'')
           | Some plaintext \<Rightarrow>
               (case json_parse_credentials w plaintext of
                  None \<Rightarrow> Inl (UnexpectedServerError
                      ''Unexpected error: failed to parse warehouse credentials'')
                | Some parsed \<Rightarrow> Inr parsed)))"

subsection \<open>Attribute values of an organization member\<close>

text \<open>
  The names every plain object inherits from \<^verbatim>\<open>Object.prototype\<close>. Reading one of
  them from an object that has no own property of that name yields the inherited member,
  which is truthy.
\<close>

definition object_prototype_members :: "string list" where
  "object_prototype_members =
     [''constructor'', ''__defineGetter__'', ''__defineSetter__'', ''hasOwnProperty'',
      ''__lookupGetter__'', ''__lookupSetter__'', ''isPrototypeOf'',
      ''propertyIsEnumerable'', ''toString'', ''valueOf'', ''__proto__'',
      ''toLocaleString'']"

text \<open>\<^verbatim>\<open>obj[key]\<close> on a plain object whose own properties are the map \<open>obj\<close>.\<close>

definition js_get :: "(string \<rightharpoonup> string) \<Rightarrow> string \<Rightarrow> js_value" where
  "js_get obj k =
     (case obj k of
        Some v \<Rightarrow> JString v
      | None \<Rightarrow> if k \<in> set object_prototype_members then JInherited k else JUndefined)"

primrec truthy :: "js_value \<Rightarrow> bool" where
  "truthy (JString s) = (s \<noteq> [])"
| "truthy JNull = False"
| "truthy JUndefined = False"
| "truthy (JInherited k) = True"

text \<open>\<^verbatim>\<open>a || b\<close>.\<close>

definition js_or :: "js_value \<Rightarrow> js_value \<Rightarrow> js_value" where
  "js_or a b = (if truthy a then a else b)"

text \<open>The column \<^verbatim>\<open>attribute_default\<close> is a string or \<^verbatim>\<open>null\<close>.\<close>

definition default_value :: "string option \<Rightarrow> js_value" where
  "default_value d = (case d of None \<Rightarrow> JNull | Some v \<Rightarrow> JString v)"

text \<open>
  \<^verbatim>\<open>getAttributeValuesForOrgMember\<close>: two awaited queries, then two \<^verbatim>\<open>reduce\<close>
  calls. A query that rejects ends the method with the rejection; the second query is
  issued only after the first has answered. The first \<^verbatim>\<open>reduce\<close> folds the user's rows
  \<open>(name, value)\<close> into \<^verbatim>\<open>userValuesMap\<close>; the second folds the organization's rows
  \<open>(name, attribute_default)\<close> into the result, taking
  \<^verbatim>\<open>userValuesMap[row.name] || row.attribute_default\<close> for each.
\<close>

definition getAttributeValuesForOrgMember :: "world \<Rightarrow> string \<Rightarrow> string
    \<Rightarrow> error + (string \<rightharpoonup> js_value)" where
  "getAttributeValuesForOrgMember w organizationUuid userUuid =
     (case db_attribute_values w organizationUuid of
        Inl rejected \<Rightarrow> Inl (Thrown rejected)
      | Inr attributeValues \<Rightarrow>
          (case db_user_values w organizationUuid userUuid of
             Inl rejected \<Rightarrow> Inl (Thrown rejected)
           | Inr userValues \<Rightarrow>
               (let userValuesMap =
                      foldl (\<lambda>acc row. acc(fst row \<mapsto> snd row)) Map.empty userValues
                in Inr (foldl (\<lambda>acc row. acc(fst row \<mapsto> js_or (js_get userValuesMap (fst row))
                                                          (default_value (snd row))))
                         Map.empty attributeValues))))"

section \<open>State and effects\<close>

text \<open>
  What a call does besides returning is written to a trace, in order: the tunnel reaching
  the connected state (with the credentials \<^verbatim>\<open>connect\<close> returned), the call of
  \<^verbatim>\<open>disconnect\<close>, the construction of a client, each request to the object store,
  and each query the warehouse driver is given. A request is recorded when it is issued,
  whether or not it then fails.
\<close>

datatype event =
    TunnelConnect warehouse_credentials
  | TunnelDisconnect warehouse_credentials
  | ClientConstructed nat
  | S3GetResultsMetadata string
  | S3GetResults string
  | S3UploadResults string string "tags option"
  | S3UploadSettled string bool
  | WarehouseRunQuery nat string "tags option"

text \<open>
  The state of the model object: the registry \<^verbatim>\<open>cachedWarehouseClients\<close>, the number
  the next constructed client gets, the promises that were created and not awaited (the
  uploads to the object store: key, payload, tags), and the trace. With it goes the
  number of tunnel sessions the process has opened so far, by which the environment
  tells one session from the next.
\<close>

record model_state =
  cachedWarehouseClients :: "string \<rightharpoonup> warehouse_client"
  next_client_id :: nat
  tunnels_opened :: nat
  detached :: "(string \<times> string \<times> tags option) list"
  trace :: "event list"

definition emit :: "event \<Rightarrow> model_state \<Rightarrow> model_state" where
  "emit e s = s\<lparr>trace := trace s @ [e]\<rparr>"

section \<open>Tunnel manager\<close>

text \<open>
  Modelled from the spec: \<^verbatim>\<open>SshTunnel\<close> is in the warehouses package.
  \<^verbatim>\<open>connect\<close>: if the credentials specify SSH parameters, it opens a tunnel and
  returns the credentials rewritten to point at the local tunnel endpoint; otherwise it
  returns the original credentials unchanged. Opening the tunnel can fail. Every
  \<^verbatim>\<open>connect\<close> that opens a tunnel is a session of its own: the sessions are numbered
  in the order they are opened and the environment gives each its endpoint.
\<close>

definition sshTunnel_connect :: "world \<Rightarrow> ssh_tunnel \<Rightarrow> model_state
    \<Rightarrow> (error + warehouse_credentials) \<times> model_state" where
  "sshTunnel_connect w sshTunnel s =
     (let c = originalCredentials sshTunnel in
      if useSshTunnel c then
        (let session = tunnels_opened s;
             s0 = s\<lparr>tunnels_opened := Suc session\<rparr>
         in case open_tunnel w session c of
              Inl e \<Rightarrow> (Inl e, s0)
            | Inr endpoint \<Rightarrow>
                (let localCredentials = c\<lparr>host := fst endpoint, port := snd endpoint\<rparr>
                 in (Inr localCredentials, emit (TunnelConnect localCredentials) s0)))
      else (Inr c, emit (TunnelConnect c) s))"


text \<open>
  Modelled from the spec: \<^verbatim>\<open>disconnect\<close> tears the session down; the teardown is
  network I/O and can fail.
\<close>

definition sshTunnel_disconnect :: "world \<Rightarrow> ssh_tunnel \<Rightarrow> model_state
    \<Rightarrow> (error + unit) \<times> model_state" where
  "sshTunnel_disconnect w sshTunnel s =
     (let s1 = emit (TunnelDisconnect (originalCredentials sshTunnel)) s in
      case close_tunnel w (originalCredentials sshTunnel) of
        Some e \<Rightarrow> (Inl e, s1)
      | None \<Rightarrow> (Inr (), s1))"

section \<open>Client cache\<close>

text \<open>
  Modelled from the spec: \<^verbatim>\<open>warehouseClientFromCredentials\<close> is in the warehouses
  package; it constructs a new client for the given credentials.
\<close>

definition getWarehouseClientFromCredentials :: "warehouse_credentials \<Rightarrow> model_state
    \<Rightarrow> warehouse_client \<times> model_state" where
  "getWarehouseClientFromCredentials creds s =
     (\<lparr>client_id = next_client_id s, credentials = creds\<rparr>,
      emit (ClientConstructed (next_client_id s)) (s\<lparr>next_client_id := Suc (next_client_id s)\<rparr>))"

text \<open>The last three statements of \<^verbatim>\<open>getWarehouseClient\<close>: construct, store, return.\<close>

definition createAndCacheClient :: "string \<Rightarrow> warehouse_credentials \<Rightarrow> ssh_tunnel \<Rightarrow> model_state
    \<Rightarrow> (error + warehouse_client \<times> ssh_tunnel) \<times> model_state" where
  "createAndCacheClient projectUuid warehouseSshCredentials sshTunnel s =
     (case getWarehouseClientFromCredentials warehouseSshCredentials s of
        (client, s1) \<Rightarrow>
          (Inr (client, sshTunnel),
           s1\<lparr>cachedWarehouseClients := (cachedWarehouseClients s1)(projectUuid \<mapsto> client)\<rparr>))"

text \<open>
  \<^verbatim>\<open>getWarehouseClient\<close>: load the credentials, connect the tunnel, then look the
  project up in the registry. The registered client is returned when
  \<^verbatim>\<open>deepEqual(existingClient.credentials, warehouseSshCredentials)\<close>.

  The registry is a plain object and is kept here as the map of its own properties. A
  project identifier that names a member of \<^verbatim>\<open>Object.prototype\<close> and has no own entry
  reads as the inherited member, which is truthy and has no \<^verbatim>\<open>credentials\<close>; the
  comparison of \<^verbatim>\<open>undefined\<close> with the credentials is false and control reaches the
  construction, as it does for a missing entry. Assigning under \<^verbatim>\<open>__proto__\<close>
  makes the client the registry's prototype instead of an own property, and a later read
  of \<^verbatim>\<open>__proto__\<close> returns it all the same.
\<close>

definition getWarehouseClient :: "world \<Rightarrow> string \<Rightarrow> model_state
    \<Rightarrow> (error + warehouse_client \<times> ssh_tunnel) \<times> model_state" where
  "getWarehouseClient w projectUuid s =
     (case getWarehouseCredentialsForProject w projectUuid of
        Inl e \<Rightarrow> (Inl e, s)
      | Inr creds \<Rightarrow>
          (let sshTunnel = \<lparr>originalCredentials = creds\<rparr> in
           case sshTunnel_connect w sshTunnel s of
             (Inl e, s1) \<Rightarrow> (Inl e, s1)
           | (Inr warehouseSshCredentials, s1) \<Rightarrow>
               (case cachedWarehouseClients s1 projectUuid of
                  None \<Rightarrow> createAndCacheClient projectUuid warehouseSshCredentials sshTunnel s1
                | Some existingClient \<Rightarrow>
                    if deepEqual (credentials existingClient) warehouseSshCredentials
                    then (Inr (existingClient, sshTunnel), s1)
                    else createAndCacheClient projectUuid warehouseSshCredentials sshTunnel s1)))"

text \<open>
  Where tunnelled credentials in the registry come from: each registered client whose
  credentials specify SSH parameters points at the endpoint of a session that was opened
  before. The registry starts empty and \<^verbatim>\<open>getWarehouseClient\<close> is the only writer, so
  this is an invariant of the object (shown below).
\<close>

definition registry_from_earlier_sessions ::
    "(nat \<Rightarrow> warehouse_credentials \<Rightarrow> error + string \<times> nat) \<Rightarrow> model_state \<Rightarrow> bool" where
  "registry_from_earlier_sessions allot s =
     (\<forall>p cl. cachedWarehouseClients s p = Some cl \<longrightarrow> useSshTunnel (credentials cl) \<longrightarrow>
          (\<exists>i c. i < tunnels_opened s
             \<and> allot i c = Inr (host (credentials cl), port (credentials cl))))"

section \<open>Results cache\<close>

text \<open>
  The key: the SHA-256 hex digest of \<^verbatim>\<open>`${projectUuid}.${query}`\<close>. The digest is the
  environment's; the string it is given is built here.
\<close>

definition queryHash :: "world \<Rightarrow> string \<Rightarrow> string \<Rightarrow> string" where
  "queryHash w projectUuid query = sha256_hex w (projectUuid @ ''.'' @ query)"

text \<open>\<^verbatim>\<open>lightdashConfig.resultsCache?.enabled\<close>.\<close>

definition resultsCacheEnabled :: "world \<Rightarrow> bool" where
  "resultsCacheEnabled w =
     (case resultsCache (lightdashConfig w) of None \<Rightarrow> False | Some cfg \<Rightarrow> enabled cfg)"

text \<open>
  The first \<^verbatim>\<open>if\<close> block of \<^verbatim>\<open>getResultsFromCacheOrWarehouse\<close>, the read. Its
  outcome is \<open>Inr (Some r)\<close> when the block returns \<open>r\<close>, \<open>Inr None\<close> when control
  leaves the block and goes on to the warehouse, and \<open>Inl e\<close> when the block throws.
  The metadata request has a \<^verbatim>\<open>.catch\<close> that turns a failure into \<^verbatim>\<open>undefined\<close>;
  the payload request is awaited bare; \<^verbatim>\<open>JSON.parse\<close> is in a \<^verbatim>\<open>try\<close> whose
  handler logs. Times are milliseconds.
\<close>

definition readResultsCache :: "world \<Rightarrow> string \<Rightarrow> model_state
    \<Rightarrow> (error + cached_or_warehouse_results option) \<times> model_state" where
  "readResultsCache w key s =
     (case resultsCache (lightdashConfig w) of
        None \<Rightarrow> (Inr None, s)
      | Some cfg \<Rightarrow>
          if \<not> enabled cfg then (Inr None, s)
          else
            (let s1 = emit (S3GetResultsMetadata key) s;
                 cacheEntryMetadata =
                   (case s3_getResultsMetadata w key of Inl e \<Rightarrow> None | Inr m \<Rightarrow> m)
             in case cacheEntryMetadata of
                  None \<Rightarrow> (Inr None, s1)
                | Some m \<Rightarrow>
                    (case LastModified m of
                       None \<Rightarrow> (Inr None, s1)
                     | Some lastModified \<Rightarrow>
                         if now w - lastModified < cacheStateTimeSeconds cfg * 1000 then
                           (let s2 = emit (S3GetResults key) s1 in
                            case s3_getResults w key of
                              Inl e \<Rightarrow> (Inl e, s2)
                            | Inr None \<Rightarrow> (Inr None, s2)
                            | Inr (Some stringResults) \<Rightarrow>
                                if stringResults = [] then (Inr None, s2)
                                else
                                  (case json_parse_rows w stringResults of
                                     None \<Rightarrow> (Inr None, s2)
                                   | Some parsed \<Rightarrow>
                                       (Inr (Some \<lparr>result_rows = parsed,
                                                   cacheMetadata =
                                                     \<lparr>cacheHit = True,
                                                      cacheUpdatedTime = Some lastModified\<rparr>\<rparr>),
                                        s2)))
                         else (Inr None, s1))))"

text \<open>
  The rest of \<^verbatim>\<open>getResultsFromCacheOrWarehouse\<close>: run the query, and when caching is
  enabled serialize the results and create the upload promise. The serialization
  (\<^verbatim>\<open>JSON.stringify\<close>) runs before the function returns and a throw of it reaches the
  caller. The promise is not awaited: it joins the detached ones and the function
  returns.
\<close>

definition runWarehouseQueryAndStore :: "world \<Rightarrow> string \<Rightarrow> warehouse_client \<Rightarrow> string
    \<Rightarrow> string \<Rightarrow> tags option \<Rightarrow> model_state
    \<Rightarrow> (error + cached_or_warehouse_results) \<times> model_state" where
  "runWarehouseQueryAndStore w key warehouseClient query metricQuery queryTags s =
     (let s1 = emit (WarehouseRunQuery (client_id warehouseClient) query queryTags) s in
      case client_runQuery w warehouseClient query queryTags of
        Inl e \<Rightarrow> (Inl e, s1)
      | Inr warehouseResults \<Rightarrow>
          (let returned = \<lparr>result_rows = rows warehouseResults,
                           cacheMetadata = \<lparr>cacheHit = False, cacheUpdatedTime = None\<rparr>\<rparr>
           in if resultsCacheEnabled w then
                (case json_stringify w warehouseResults of
                   Inl e \<Rightarrow> (Inl e, s1)
                 | Inr buffer \<Rightarrow>
                     (Inr returned,
                      emit (S3UploadResults key buffer queryTags)
                        (s1\<lparr>detached := detached s1 @ [(key, buffer, queryTags)]\<rparr>)))
              else (Inr returned, s1)))"

definition getResultsFromCacheOrWarehouse :: "world \<Rightarrow> string \<Rightarrow> warehouse_client \<Rightarrow> string
    \<Rightarrow> string \<Rightarrow> tags option \<Rightarrow> model_state
    \<Rightarrow> (error + cached_or_warehouse_results) \<times> model_state" where
  "getResultsFromCacheOrWarehouse w projectUuid warehouseClient query metricQuery queryTags s =
     (let key = queryHash w projectUuid query in
      case readResultsCache w key s of
        (Inl e, s1) \<Rightarrow> (Inl e, s1)
      | (Inr (Some cached), s1) \<Rightarrow> (Inr cached, s1)
      | (Inr None, s1) \<Rightarrow>
          runWarehouseQueryAndStore w key warehouseClient query metricQuery queryTags s1)"

text \<open>
  What happens to the detached promises once the event loop gets to them: each is
  \<^verbatim>\<open>uploadResults(...).catch((e) => undefined)\<close>, so it is fulfilled whether the
  upload succeeded or not, and nothing is thrown anywhere.
\<close>

definition settleDetached :: "world \<Rightarrow> model_state \<Rightarrow> model_state" where
  "settleDetached w s =
     (s\<lparr>detached := [],
        trace := trace s @
          map (\<lambda>(key, buffer, queryTags).
                 S3UploadSettled key (s3_uploadResults w key buffer queryTags = None))
              (detached s)\<rparr>)"

subsection \<open>From the text to the bytes that are hashed\<close>

text \<open>
  \<^verbatim>\<open>update\<close> is given a string and hashes its UTF-8 encoding. Elsewhere in this
  development a text is kept as those bytes; here the step is spelled out. A text is a
  sequence of UTF-16 code units (numbers below 65536). A high surrogate followed by a low
  surrogate encodes one code point in four bytes; any other code unit is encoded on its
  own, in one to three bytes, and a surrogate that is not part of a pair is replaced by
  U+FFFD, whose bytes are EF BF BD.
\<close>

definition is_high :: "nat \<Rightarrow> bool" where
  "is_high u = (0xD800 \<le> u \<and> u < 0xDC00)"

definition is_low :: "nat \<Rightarrow> bool" where
  "is_low u = (0xDC00 \<le> u \<and> u < 0xE000)"

definition utf8_unit :: "nat \<Rightarrow> nat list" where
  "utf8_unit u =
     (if u < 0x80 then [u]
      else if u < 0x800 then [0xC0 + u div 64, 0x80 + u mod 64]
      else if is_high u \<or> is_low u then [0xEF, 0xBF, 0xBD]
      else [0xE0 + u div 4096, 0x80 + (u div 64) mod 64, 0x80 + u mod 64])"

definition utf8_pair :: "nat \<Rightarrow> nat \<Rightarrow> nat list" where
  "utf8_pair hi lo =
     (let cp = 0x10000 + (hi - 0xD800) * 1024 + (lo - 0xDC00)
      in [0xF0 + cp div 262144, 0x80 + (cp div 4096) mod 64, 0x80 + (cp div 64) mod 64,
          0x80 + cp mod 64])"

fun toUtf8Bytes :: "nat list \<Rightarrow> nat list" where
  "toUtf8Bytes [] = []"
| "toUtf8Bytes [u] = utf8_unit u"
| "toUtf8Bytes (u # l # us) =
     (if is_high u \<and> is_low l then utf8_pair u l @ toUtf8Bytes us
      else utf8_unit u @ toUtf8Bytes (l # us))"

definition toUtf8 :: "nat list \<Rightarrow> string" where
  "toUtf8 text = map char_of (toUtf8Bytes text)"

text \<open>
  The key of a project identifier and a query text given as texts: the digest of the
  encoding of \<^verbatim>\<open>`${projectUuid}.${query}`\<close>; 46 is the dot.
\<close>

definition queryHashOfText :: "world \<Rightarrow> nat list \<Rightarrow> nat list \<Rightarrow> string" where
  "queryHashOfText w projectUuid query = sha256_hex w (toUtf8 (projectUuid @ [46] @ query))"

text \<open>A text is well formed when every surrogate in it is part of a pair.\<close>

fun well_formed :: "nat list \<Rightarrow> bool" where
  "well_formed [] = True"
| "well_formed [u] = (\<not> is_high u \<and> \<not> is_low u \<and> u < 65536)"
| "well_formed (u # l # us) =
     (if is_high u then is_low l \<and> well_formed us
      else \<not> is_low u \<and> u < 65536 \<and> well_formed (l # us))"

text \<open>
  Reading the bytes back. This is not part of the class; it is the inverse of the
  encoding on well-formed texts and serves to show that the encoding loses nothing there.
\<close>

fun fromUtf8Bytes :: "nat list \<Rightarrow> nat list" where
  "fromUtf8Bytes [] = []"
| "fromUtf8Bytes (b # bs) =
     (if b < 0x80 then b # fromUtf8Bytes bs
      else if b < 0xE0 then
        (case bs of
           b2 # r \<Rightarrow> ((b - 0xC0) * 64 + (b2 - 0x80)) # fromUtf8Bytes r
         | _ \<Rightarrow> [])
      else if b < 0xF0 then
        (case bs of
           b2 # b3 # r \<Rightarrow> ((b - 0xE0) * 4096 + (b2 - 0x80) * 64 + (b3 - 0x80)) # fromUtf8Bytes r
         | _ \<Rightarrow> [])
      else
        (case bs of
           b2 # b3 # b4 # r \<Rightarrow>
             (let cp = (b - 0xF0) * 262144 + (b2 - 0x80) * 4096 + (b3 - 0x80) * 64 + (b4 - 0x80)
              in (0xD800 + (cp - 0x10000) div 1024) # (0xDC00 + (cp - 0x10000) mod 1024)
                   # fromUtf8Bytes r)
         | _ \<Rightarrow> []))"

section \<open>Query orchestrator\<close>

definition runQuery :: "world \<Rightarrow> string \<Rightarrow> string \<Rightarrow> tags option \<Rightarrow> model_state
    \<Rightarrow> (error + warehouse_results) \<times> model_state" where
  "runQuery w projectUuid query queryTags s =
     (case getWarehouseClient w projectUuid s of
        (Inl e, s1) \<Rightarrow> (Inl e, s1)
      | (Inr (warehouseClient, sshTunnel), s1) \<Rightarrow>
          (let s2 = emit (WarehouseRunQuery (client_id warehouseClient) query queryTags) s1 in
           case client_runQuery w warehouseClient query queryTags of
             Inl e \<Rightarrow> (Inl e, s2)
           | Inr results \<Rightarrow>
               (case sshTunnel_disconnect w sshTunnel s2 of
                  (Inl e, s3) \<Rightarrow> (Inl e, s3)
                | (Inr u, s3) \<Rightarrow> (Inr results, s3))))"

text \<open>
  \<^verbatim>\<open>runMetricQuery\<close>. The explore and the metric query are opaque to the class and
  are strings here; \<^verbatim>\<open>compileMetricQuery\<close> and \<^verbatim>\<open>buildQuery\<close> are the imported
  functions and can throw.
\<close>

definition runMetricQuery :: "world \<Rightarrow> string \<Rightarrow> string \<Rightarrow> string \<Rightarrow> string \<Rightarrow> tags option
    \<Rightarrow> string \<Rightarrow> model_state \<Rightarrow> (error + metric_query_results) \<times> model_state" where
  "runMetricQuery w organizationUuid projectUuid userUuid metricQuery queryTags explore s =
     (case getWarehouseClient w projectUuid s of
        (Inl e, s1) \<Rightarrow> (Inl e, s1)
      | (Inr (warehouseClient, sshTunnel), s1) \<Rightarrow>
          (case getAttributeValuesForOrgMember w organizationUuid userUuid of
             Inl e \<Rightarrow> (Inl e, s1)
           | Inr userAttributes \<Rightarrow>
          (case compileMetricQuery w explore metricQuery warehouseClient of
             Inl e \<Rightarrow> (Inl e, s1)
           | Inr compiledMetricQuery \<Rightarrow>
               (case buildQuery w explore compiledMetricQuery warehouseClient userAttributes of
                  Inl e \<Rightarrow> (Inl e, s1)
                | Inr (query, hasExample) \<Rightarrow>
                    (case getResultsFromCacheOrWarehouse w projectUuid warehouseClient query
                            metricQuery queryTags s1 of
                       (Inl e, s2) \<Rightarrow> (Inl e, s2)
                     | (Inr res, s2) \<Rightarrow>
                         (case sshTunnel_disconnect w sshTunnel s2 of
                            (Inl e, s3) \<Rightarrow> (Inl e, s3)
                          | (Inr u, s3) \<Rightarrow>
                              (Inr \<lparr>mq_rows = result_rows res,
                                    mq_cacheMetadata = cacheMetadata res,
                                    mq_query = query,
                                    hasExampleMetric = hasExample,
                                    warehouseType = cred_type (credentials warehouseClient)\<rparr>,
                               s3)))))))"

section \<open>Concrete environments\<close>

text \<open>
  A small installation to evaluate the functions on: one project \<open>p1\<close> on a Postgres
  warehouse, one organization with two attributes, one member with one value. Caching is
  enabled with a threshold of 3600 seconds, the stored entry was written at time 0 and
  the clock reads 3600000 ms. The digest of this environment is the identity, which
  stands in for a hash without collisions. Tunnel session \<open>n\<close> gets local port
  \<open>50000 + n\<close>.
\<close>

definition example_credentials :: warehouse_credentials where
  "example_credentials =
     \<lparr>cred_type = ''postgres'', host = ''db.internal'', port = 5432, useSshTunnel = False,
      secrets = [(''password'', ''hunter2'')]\<rparr>"

definition example_rows :: "row list" where
  "example_rows = [[(''orders_count'', ''42'')]]"

definition example_world :: world where
  "example_world =
     \<lparr>db_warehouse_credentials =
        (\<lambda>p. if p = ''p1'' then Inr [(''postgres'', ''blob'')] else Inr []),
      db_attribute_values =
        (\<lambda>org. if org = ''org1'' then Inr [(''region'', Some ''EU''), (''team'', None)]
              else Inr []),
      db_user_values =
        (\<lambda>org u. if org = ''org1'' \<and> u = ''u1'' then Inr [(''region'', ''US'')] else Inr []),
      decrypt = (\<lambda>b. if b = ''blob'' then Some ''json'' else None),
      json_parse_credentials = (\<lambda>t. if t = ''json'' then Some example_credentials else None),
      open_tunnel = (\<lambda>n c. Inr (''127.0.0.1'', 50000 + n)),
      close_tunnel = (\<lambda>c. None),
      compileMetricQuery = (\<lambda>e m c. Inr m),
      buildQuery = (\<lambda>e m c a. Inr (''SELECT 1'', False)),
      client_runQuery = (\<lambda>c q t. Inr \<lparr>result_fields = [''orders_count''], rows = example_rows\<rparr>),
      sha256_hex = (\<lambda>t. t),
      now = 3600000,
      lightdashConfig = \<lparr>resultsCache = Some \<lparr>enabled = True, cacheStateTimeSeconds = 3600\<rparr>\<rparr>,
      s3_getResultsMetadata = (\<lambda>k. Inr (Some \<lparr>LastModified = Some 0\<rparr>)),
      s3_getResults = (\<lambda>k. Inr (Some ''payload'')),
      s3_uploadResults = (\<lambda>k b t. None),
      json_parse_rows = (\<lambda>t. if t = ''payload'' then Some [[(''orders_count'', ''41'')]] else None),
      json_stringify = (\<lambda>r. Inr ''payload'')\<rparr>"

definition initial_state :: model_state where
  "initial_state =
     \<lparr>cachedWarehouseClients = Map.empty, next_client_id = 0, tunnels_opened = 0,
      detached = [], trace = []\<rparr>"

text \<open>The same project reached through an SSH tunnel.\<close>

definition ssh_credentials :: warehouse_credentials where
  "ssh_credentials = example_credentials\<lparr>useSshTunnel := True\<rparr>"

definition ssh_world :: world where
  "ssh_world =
     example_world\<lparr>json_parse_credentials :=
                     (\<lambda>t. if t = ''json'' then Some ssh_credentials else None)\<rparr>"

text \<open>The requests to the object store among the events of a trace.\<close>

primrec is_cache_request :: "event \<Rightarrow> bool" where
  "is_cache_request (TunnelConnect c) = False"
| "is_cache_request (TunnelDisconnect c) = False"
| "is_cache_request (ClientConstructed n) = False"
| "is_cache_request (S3GetResultsMetadata k) = True"
| "is_cache_request (S3GetResults k) = True"
| "is_cache_request (S3UploadResults k b t) = True"
| "is_cache_request (S3UploadSettled k ok) = True"
| "is_cache_request (WarehouseRunQuery n q t) = False"

text \<open>The credentials the tunnel hands back for \<open>ssh_credentials\<close>.\<close>

definition tunnelled_credentials :: warehouse_credentials where
  "tunnelled_credentials = ssh_credentials\<lparr>host := ''127.0.0.1'', port := 50000\<rparr>"


text \<open>The warehouse driver rejects every query.\<close>

definition warehouse_down_world :: world where
  "warehouse_down_world =
     ssh_world\<lparr>client_runQuery := (\<lambda>c q t. Inl (Thrown ''connection terminated''))\<rparr>"

text \<open>
  The stored entry is one second old, so it is fresh; the object store answers the
  metadata request and fails the payload request.
\<close>

definition payload_outage_world :: world where
  "payload_outage_world =
     example_world\<lparr>now := 1000, s3_getResults := (\<lambda>k. Inl (Thrown ''S3 unavailable''))\<rparr>"

text \<open>The object store fails the metadata request.\<close>

definition metadata_outage_world :: world where
  "metadata_outage_world =
     example_world\<lparr>now := 1000,
                   s3_getResultsMetadata := (\<lambda>k. Inl (Thrown ''S3 unavailable''))\<rparr>"

text \<open>Caching switched off in the configuration.\<close>

definition caching_off_world :: world where
  "caching_off_world =
     example_world\<lparr>lightdashConfig :=
       \<lparr>resultsCache = Some \<lparr>enabled = False, cacheStateTimeSeconds = 3600\<rparr>\<rparr>\<rparr>"

text \<open>The member has set the attribute \<open>region\<close> to the empty string.\<close>

definition empty_override_world :: world where
  "empty_override_world =
     example_world\<lparr>db_user_values :=
       (\<lambda>org u. if org = ''org1'' \<and> u = ''u1'' then Inr [(''region'', [])] else Inr [])\<rparr>"


text \<open>States and results the example calls go through.\<close>

definition client0 :: warehouse_client where
  "client0 = \<lparr>client_id = 0, credentials = example_credentials\<rparr>"

definition state_after_resolution :: model_state where
  "state_after_resolution =
     \<lparr>cachedWarehouseClients = [''p1'' \<mapsto> client0], next_client_id = 1, tunnels_opened = 0,
      detached = [],
      trace = [TunnelConnect example_credentials, ClientConstructed 0]\<rparr>"



definition off_results :: metric_query_results where
  "off_results =
     \<lparr>mq_rows = example_rows,
      mq_cacheMetadata = \<lparr>cacheHit = False, cacheUpdatedTime = None\<rparr>,
      mq_query = ''SELECT 1'', hasExampleMetric = False, warehouseType = ''postgres''\<rparr>"

definition off_state :: model_state where
  "off_state =
     state_after_resolution
       \<lparr>trace := [TunnelConnect example_credentials, ClientConstructed 0,
                  WarehouseRunQuery 0 ''SELECT 1'' None,
                  TunnelDisconnect example_credentials]\<rparr>"

text \<open>The database rejects the credentials query.\<close>

definition db_outage_world :: world where
  "db_outage_world =
     example_world\<lparr>db_warehouse_credentials := (\<lambda>p. Inl ''connection refused'')\<rparr>"



text \<open>
  Texts as code units: the project identifier \<open>p1\<close>, two queries, and two texts that
  consist of one unpaired surrogate each.
\<close>

definition text_p1 :: "nat list" where
  "text_p1 = [112, 49]"

definition text_select_1 :: "nat list" where
  "text_select_1 = [83, 69, 76, 69, 67, 84, 32, 49]"

definition text_select_2 :: "nat list" where
  "text_select_2 = [83, 69, 76, 69, 67, 84, 32, 50]"

definition lone_high_surrogate :: "nat list" where
  "lone_high_surrogate = [0xD800]"

definition lone_low_surrogate :: "nat list" where
  "lone_low_surrogate = [0xDC00]"

text \<open>The result of the example call that misses the cache, and the state it ends in.\<close>

definition example_metric_results :: metric_query_results where
  "example_metric_results =
     \<lparr>mq_rows = example_rows,
      mq_cacheMetadata = \<lparr>cacheHit = False, cacheUpdatedTime = None\<rparr>,
      mq_query = ''SELECT 1'', hasExampleMetric = False, warehouseType = ''postgres''\<rparr>"

section \<open>Evaluation\<close>

lemmas eval_defs =
  example_world_def ssh_world_def example_credentials_def ssh_credentials_def
  initial_state_def example_rows_def
  getWarehouseClient_def getWarehouseCredentialsForProject_def sshTunnel_connect_def
  sshTunnel_disconnect_def createAndCacheClient_def getWarehouseClientFromCredentials_def
  getAttributeValuesForOrgMember_def
  deepEqual_def emit_def Let_def queryHash_def resultsCacheEnabled_def readResultsCache_def
  runWarehouseQueryAndStore_def getResultsFromCacheOrWarehouse_def runQuery_def
  runMetricQuery_def

lemma example_getWarehouseClient:
  "getWarehouseClient example_world ''p1'' initial_state
     = (Inr (client0, \<lparr>originalCredentials = example_credentials\<rparr>), state_after_resolution)"
  by (simp add: client0_def state_after_resolution_def eval_defs)

section \<open>Credential resolution\<close>

text \<open>
  C6, as claimed, fails: the database rejects the query, and credential resolution ends
  with the driver's error, which is neither the not-found error nor the
  unexpected-server error, and returns no credentials.
\<close>

theorem credential_query_rejection_is_a_third_failure:
  "db_warehouse_credentials db_outage_world ''p1'' = Inl ''connection refused''
   \<and> getWarehouseCredentialsForProject db_outage_world ''p1''
       = Inl (Thrown ''connection refused'')"
  by (simp add: db_outage_world_def getWarehouseCredentialsForProject_def)

text \<open>
  C6, amended. Credential resolution has four outcomes and each has its own cause. It
  fails with the driver's error exactly when the query rejects. It fails with the
  not-found error exactly when the query returns no row for the project. It fails with
  the unexpected-server error exactly when the query returns a row and decrypting its
  blob or parsing the plaintext fails. It returns credentials exactly when the query
  returns a row whose blob decrypts and parses, and these are the parsed credentials of
  the first row.
\<close>

theorem credential_resolution_outcomes:
  "((getWarehouseCredentialsForProject w p = Inl (Thrown msg))
      = (db_warehouse_credentials w p = Inl msg))
   \<and> ((\<exists>m. getWarehouseCredentialsForProject w p = Inl (NotExistsError m))
      = (db_warehouse_credentials w p = Inr []))
   \<and> ((\<exists>m. getWarehouseCredentialsForProject w p = Inl (UnexpectedServerError m))
      = (\<exists>r rest. db_warehouse_credentials w p = Inr (r # rest)
           \<and> (decrypt w (snd r) = None
              \<or> (\<exists>t. decrypt w (snd r) = Some t \<and> json_parse_credentials w t = None))))
   \<and> ((getWarehouseCredentialsForProject w p = Inr c)
      = (\<exists>r rest t. db_warehouse_credentials w p = Inr (r # rest)
           \<and> decrypt w (snd r) = Some t \<and> json_parse_credentials w t = Some c))"
  by (auto simp: getWarehouseCredentialsForProject_def
           split: sum.splits list.splits option.splits)

section \<open>Attribute values\<close>

lemma foldl_upd_map_of:
  "foldl (\<lambda>acc r. acc(fst r \<mapsto> f r)) m xs = m ++ map_of (rev (map (\<lambda>r. (fst r, f r)) xs))"
  by (induction xs arbitrary: m) (auto simp: map_add_def fun_eq_iff split: option.splits)

lemma map_of_rev_map_snd:
  "map_of (rev (map (\<lambda>r. (fst r, f r)) xs)) n
     = (case map_of (rev xs) n of None \<Rightarrow> None | Some d \<Rightarrow> Some (f (n, d)))"
  by (induction xs) (auto simp: map_add_def split: option.splits)

text \<open>
  C5, as claimed, fails: the member's value for \<open>region\<close> is the empty string, the
  organization's default is \<open>EU\<close>, and the result carries \<open>EU\<close>.
\<close>

theorem empty_user_value_yields_default:
  "db_attribute_values empty_override_world ''org1''
     = Inr [(''region'', Some ''EU''), (''team'', None)]
   \<and> db_user_values empty_override_world ''org1'' ''u1'' = Inr [(''region'', [])]
   \<and> (case getAttributeValuesForOrgMember empty_override_world ''org1'' ''u1'' of
        Inl e \<Rightarrow> False
      | Inr values \<Rightarrow> values ''region'' = Some (JString ''EU''))"
  by (simp add: empty_override_world_def example_world_def getAttributeValuesForOrgMember_def
        js_get_def js_or_def default_value_def)

text \<open>
  C5, amended. When the first query rejects, the function fails with that rejection; when
  it answers and the second rejects, with the second's; there is no other error path.
  When both answer, the result has exactly the attribute names of the organization's
  rows. For each of them the value is the member's value when the member has one that is
  not the empty string, and otherwise the default of the organization's row (\<^verbatim>\<open>null\<close>
  when the default is null); where a name occurs in several rows the last row counts. A
  name that the member has no value for and that \<^verbatim>\<open>Object.prototype\<close> defines reads
  as the inherited member.
\<close>

theorem attribute_values_characterised:
  "(case db_attribute_values w org of
      Inl rejected \<Rightarrow> getAttributeValuesForOrgMember w org user = Inl (Thrown rejected)
    | Inr attributeValues \<Rightarrow>
        (case db_user_values w org user of
           Inl rejected \<Rightarrow> getAttributeValuesForOrgMember w org user = Inl (Thrown rejected)
         | Inr userValues \<Rightarrow>
             (\<exists>values. getAttributeValuesForOrgMember w org user = Inr values
                \<and> dom values = fst ` set attributeValues
                \<and> (\<forall>n. values n =
                      (case map_of (rev attributeValues) n of
                         None \<Rightarrow> None
                       | Some d \<Rightarrow>
                           Some (case map_of (rev userValues) n of
                                   Some v \<Rightarrow> if v = [] then default_value d else JString v
                                 | None \<Rightarrow>
                                     if n \<in> set object_prototype_members then JInherited n
                                     else default_value d))))))"
proof -
  have um: "foldl (\<lambda>acc r. acc(fst r \<mapsto> snd r)) Map.empty xs = map_of (rev xs)"
    for xs :: "(string \<times> string) list"
    using foldl_upd_map_of [of snd Map.empty xs] by (simp add: prod.expand cong: map_cong)
  show ?thesis
    unfolding getAttributeValuesForOrgMember_def Let_def um foldl_upd_map_of
    by (simp add: map_of_rev_map_snd js_get_def js_or_def dom_map_of_conv_image_fst image_image
             split: option.splits sum.splits)
qed

section \<open>Client resolution\<close>

lemma sshTunnel_connect_registry:
  "sshTunnel_connect w t s = (r, s1) \<Longrightarrow>
   cachedWarehouseClients s1 = cachedWarehouseClients s \<and> next_client_id s1 = next_client_id s
   \<and> detached s1 = detached s \<and> tunnels_opened s \<le> tunnels_opened s1"
  by (auto simp: sshTunnel_connect_def Let_def emit_def split: if_splits sum.splits)

lemma sshTunnel_connect_tunnelled:
  assumes "sshTunnel_connect w \<lparr>originalCredentials = c\<rparr> s = (Inr eff, s1)"
      and "useSshTunnel c"
  shows "useSshTunnel eff \<and> tunnels_opened s1 = Suc (tunnels_opened s)
       \<and> open_tunnel w (tunnels_opened s) c = Inr (host eff, port eff)"
  using assms
  by (auto simp: sshTunnel_connect_def Let_def emit_def split: sum.splits)

lemma sshTunnel_connect_direct:
  assumes "sshTunnel_connect w \<lparr>originalCredentials = c\<rparr> s = (Inr eff, s1)"
      and "\<not> useSshTunnel c"
  shows "eff = c \<and> tunnels_opened s1 = tunnels_opened s"
  using assms by (auto simp: sshTunnel_connect_def Let_def emit_def)

lemma registry_from_earlier_sessions_initially:
  "registry_from_earlier_sessions allot initial_state"
  by (simp add: registry_from_earlier_sessions_def initial_state_def)

lemma registry_from_earlier_sessions_kept:
  assumes "registry_from_earlier_sessions allot s"
      and "cachedWarehouseClients s' = cachedWarehouseClients s"
      and "tunnels_opened s \<le> tunnels_opened s'"
  shows "registry_from_earlier_sessions allot s'"
  unfolding registry_from_earlier_sessions_def
proof (intro allI impI)
  fix p cl
  assume "cachedWarehouseClients s' p = Some cl" "useSshTunnel (credentials cl)"
  with assms(1,2) obtain i c where "i < tunnels_opened s"
    "allot i c = Inr (host (credentials cl), port (credentials cl))"
    unfolding registry_from_earlier_sessions_def by metis
  with assms(3) show "\<exists>i c. i < tunnels_opened s'
      \<and> allot i c = Inr (host (credentials cl), port (credentials cl))"
    by (meson less_le_trans)
qed

lemma registry_from_earlier_sessions_stored:
  assumes "registry_from_earlier_sessions allot s"
      and "cachedWarehouseClients s' = (cachedWarehouseClients s)(p \<mapsto> client)"
      and "tunnels_opened s' = tunnels_opened s"
      and "useSshTunnel (credentials client) \<Longrightarrow>
             \<exists>i c. i < tunnels_opened s
               \<and> allot i c = Inr (host (credentials client), port (credentials client))"
  shows "registry_from_earlier_sessions allot s'"
  using assms unfolding registry_from_earlier_sessions_def
  by (auto split: if_splits)



text \<open>
  Asking again without a tunnel: in an unchanged environment a second resolution for the
  same project returns the instance the first one returned.
\<close>

lemma getWarehouseClient_registers:
  assumes "getWarehouseClient w p s = (Inr (client, t), s1)"
  shows "cachedWarehouseClients s1 p = Some client
       \<and> (\<exists>s0. sshTunnel_connect w t s = (Inr (credentials client), s0))
       \<and> getWarehouseCredentialsForProject w p = Inr (originalCredentials t)"
  using assms
  by (auto simp: getWarehouseClient_def createAndCacheClient_def
        getWarehouseClientFromCredentials_def deepEqual_def emit_def Let_def
        dest: sshTunnel_connect_registry
        split: sum.splits prod.splits option.splits if_splits)

lemma getWarehouseClient_repeat:
  assumes "getWarehouseClient w p s = (Inr (client, t), s1)"
      and "\<not> useSshTunnel (originalCredentials t)"
  shows "fst (getWarehouseClient w p s1) = Inr (client, t)"
proof -
  obtain c where t: "t = \<lparr>originalCredentials = c\<rparr>" by (cases t) simp
  from getWarehouseClient_registers [OF assms(1)] obtain s0 where
    reg: "cachedWarehouseClients s1 p = Some client"
    and con: "sshTunnel_connect w t s = (Inr (credentials client), s0)"
    and cr: "getWarehouseCredentialsForProject w p = Inr c"
    unfolding t by auto
  have direct: "credentials client = c"
    using con assms(2) unfolding t by (simp add: sshTunnel_connect_def Let_def)
  have "sshTunnel_connect w t s1 = (Inr c, emit (TunnelConnect c) s1)"
    using assms(2) unfolding t by (simp add: sshTunnel_connect_def Let_def)
  then show ?thesis
    using cr reg direct unfolding t
    by (simp add: getWarehouseClient_def deepEqual_def Let_def emit_def)
qed


text \<open>
  The invariant over the life of the object: it holds of the initial state, every
  resolution keeps it whether it succeeds or fails, and the rest of \<^verbatim>\<open>runQuery\<close> and
  \<^verbatim>\<open>runMetricQuery\<close> touches neither the registry nor the session count.
\<close>

lemma getWarehouseClient_keeps_invariant:
  assumes inv: "registry_from_earlier_sessions (open_tunnel w) s"
      and run: "getWarehouseClient w p s = (r, s')"
  shows "registry_from_earlier_sessions (open_tunnel w) s'"
proof (cases "getWarehouseCredentialsForProject w p")
  case (Inl e)
  with run inv show ?thesis by (simp add: getWarehouseClient_def)
next
  case (Inr c)
  let ?t = "\<lparr>originalCredentials = c\<rparr>"
  obtain r1 s1 where con: "sshTunnel_connect w ?t s = (r1, s1)"
    by (cases "sshTunnel_connect w ?t s")
  note fr = sshTunnel_connect_registry [OF con]
  have inv1: "registry_from_earlier_sessions (open_tunnel w) s1"
    using inv fr by (intro registry_from_earlier_sessions_kept [of _ s s1]) simp_all
  show ?thesis
  proof (cases r1)
    case (Inl e)
    with run Inr con inv1 show ?thesis by (simp add: getWarehouseClient_def)
  next
    case eff: (Inr eff)
    have origin: "\<exists>i c'. i < tunnels_opened s1 \<and> open_tunnel w i c' = Inr (host eff, port eff)"
      if "useSshTunnel eff"
    proof -
      have "useSshTunnel c"
        using that con eff sshTunnel_connect_direct [of w c s eff s1]
        by (cases "useSshTunnel c") auto
      from sshTunnel_connect_tunnelled [of w c s eff s1] con eff this show ?thesis by auto
    qed
    have stored: "registry_from_earlier_sessions (open_tunnel w) s'"
      if "createAndCacheClient p eff ?t s1 = (r, s')"
    proof (rule registry_from_earlier_sessions_stored
             [of _ s1 s' p "\<lparr>client_id = next_client_id s1, credentials = eff\<rparr>"])
      show "registry_from_earlier_sessions (open_tunnel w) s1" by (rule inv1)
      show "cachedWarehouseClients s'
          = (cachedWarehouseClients s1)(p \<mapsto> \<lparr>client_id = next_client_id s1, credentials = eff\<rparr>)"
        using that
        by (auto simp: createAndCacheClient_def getWarehouseClientFromCredentials_def emit_def)
      show "tunnels_opened s' = tunnels_opened s1"
        using that
        by (auto simp: createAndCacheClient_def getWarehouseClientFromCredentials_def emit_def)
      show "\<exists>i c'. i < tunnels_opened s1 \<and> open_tunnel w i c'
          = Inr (host (credentials \<lparr>client_id = next_client_id s1, credentials = eff\<rparr>),
                 port (credentials \<lparr>client_id = next_client_id s1, credentials = eff\<rparr>))"
        if "useSshTunnel (credentials \<lparr>client_id = next_client_id s1, credentials = eff\<rparr>)"
        using origin that by simp
    qed
    show ?thesis
      using run Inr con eff inv1 stored
      by (auto simp: getWarehouseClient_def Let_def split: option.splits if_splits)
  qed
qed

section \<open>Cache keys\<close>

lemma split3: "(u::nat) div 4096 * 4096 + (u div 64) mod 64 * 64 + u mod 64 = u"
proof -
  define d where "d = u div 64"
  have 1: "u div 4096 = d div 64" unfolding d_def using div_mult2_eq [of u 64 64] by simp
  have 2: "d div 64 * 64 + d mod 64 = d" by simp
  have 3: "d * 64 + u mod 64 = u" unfolding d_def by simp
  define a m where "a = d div 64" and "m = d mod 64"
  have "a * 4096 + m * 64 + u mod 64 = u"
    using 2 3 unfolding a_def [symmetric] m_def [symmetric] by (simp add: algebra_simps)
  then show ?thesis unfolding 1 a_def m_def d_def .
qed

lemma split4:
  "(c::nat) div 262144 * 262144 + (c div 4096) mod 64 * 4096 + (c div 64) mod 64 * 64 + c mod 64 = c"
proof -
  define d where "d = c div 64"
  have 1: "c div 4096 = d div 64" "c div 262144 = d div 4096"
    unfolding d_def using div_mult2_eq [of c 64 64] div_mult2_eq [of c 64 4096] by simp_all
  have 3: "d * 64 + c mod 64 = c" unfolding d_def by simp
  have "(d div 4096 * 4096 + (d div 64) mod 64 * 64 + d mod 64) * 64 + c mod 64 = c"
    unfolding split3 by (rule 3)
  then show ?thesis unfolding 1 d_def [symmetric] by (simp add: algebra_simps)
qed

lemma toUtf8Bytes_append:
  "\<not> is_low u \<Longrightarrow> toUtf8Bytes (xs @ u # ys) = toUtf8Bytes xs @ toUtf8Bytes (u # ys)"
  by (induction xs rule: toUtf8Bytes.induct) auto

lemma fromUtf8Bytes_unit:
  assumes "\<not> is_high u" "\<not> is_low u" "u < 65536"
  shows "fromUtf8Bytes (utf8_unit u @ r) = u # fromUtf8Bytes r"
proof -
  consider "u < 0x80" | "0x80 \<le> u" "u < 0x800" | "0x800 \<le> u" by linarith
  then show ?thesis
  proof cases
    case 1
    then show ?thesis by (simp add: utf8_unit_def)
  next
    case 2
    define q where "q = u div 64"
    define m where "m = u mod 64"
    have enc: "utf8_unit u = [0xC0 + q, 0x80 + m]"
      using 2 by (simp add: utf8_unit_def q_def m_def)
    have "q < 32" unfolding q_def using 2 by (intro less_mult_imp_div_less) simp
    moreover have "q * 64 + m = u" unfolding q_def m_def by simp
    ultimately show ?thesis unfolding enc by simp
  next
    case 3
    define q where "q = u div 4096"
    define m1 where "m1 = (u div 64) mod 64"
    define m0 where "m0 = u mod 64"
    have enc: "utf8_unit u = [0xE0 + q, 0x80 + m1, 0x80 + m0]"
      using 3 assms by (simp add: utf8_unit_def q_def m1_def m0_def)
    have "q < 16" unfolding q_def using assms(3) by (intro less_mult_imp_div_less) simp
    moreover have "q * 4096 + m1 * 64 + m0 = u" unfolding q_def m1_def m0_def by (rule split3)
    ultimately show ?thesis unfolding enc by simp
  qed
qed

lemma fromUtf8Bytes_pair:
  assumes "is_high hi" "is_low lo"
  shows "fromUtf8Bytes (utf8_pair hi lo @ r) = hi # lo # fromUtf8Bytes r"
proof -
  define x where "x = hi - 0xD800"
  define y where "y = lo - 0xDC00"
  define cp where "cp = 0x10000 + x * 1024 + y"
  define q where "q = cp div 262144"
  define m2 where "m2 = (cp div 4096) mod 64"
  define m1 where "m1 = (cp div 64) mod 64"
  define m0 where "m0 = cp mod 64"
  have enc: "utf8_pair hi lo = [0xF0 + q, 0x80 + m2, 0x80 + m1, 0x80 + m0]"
    by (simp add: utf8_pair_def Let_def cp_def x_def y_def q_def m2_def m1_def m0_def)
  have rng: "x < 1024" "y < 1024" "hi = 0xD800 + x" "lo = 0xDC00 + y"
    using assms unfolding is_high_def is_low_def x_def y_def by linarith+
  have whole: "q * 262144 + m2 * 4096 + m1 * 64 + m0 = cp"
    unfolding q_def m2_def m1_def m0_def by (rule split4)
  have off: "cp - 0x10000 = x * 1024 + y" by (simp add: cp_def)
  have h: "(cp - 0x10000) div 1024 = x" "(cp - 0x10000) mod 1024 = y"
    unfolding off using rng(2) by simp_all
  show ?thesis
    unfolding enc by (simp add: Let_def whole h rng(3,4))
qed

lemma fromUtf8Bytes_toUtf8Bytes:
  "well_formed xs \<Longrightarrow> fromUtf8Bytes (toUtf8Bytes xs) = xs"
proof (induction xs rule: toUtf8Bytes.induct)
  case 1
  then show ?case by simp
next
  case (2 u)
  then show ?case using fromUtf8Bytes_unit [of u "[]"] by simp
next
  case (3 u l us)
  show ?case
  proof (cases "is_high u")
    case True
    with 3 show ?thesis by (simp add: fromUtf8Bytes_pair)
  next
    case False
    with 3 show ?thesis by (simp add: fromUtf8Bytes_unit)
  qed
qed

lemma utf8_unit_bytes:
  assumes "u < 65536" and "b \<in> set (utf8_unit u)"
  shows "b < 256"
proof -
  have m: "u mod 64 < 64" "(u div 64) mod 64 < 64" by simp_all
  have "u div 64 < 32" if "u < 0x800"
    using that by (intro less_mult_imp_div_less) simp
  moreover have "u div 4096 < 16"
    using assms(1) by (intro less_mult_imp_div_less) simp
  ultimately show ?thesis
    using assms(2) m by (auto simp: utf8_unit_def split: if_splits)
qed

lemma utf8_pair_bytes:
  assumes "is_high hi" and "is_low lo" and "b \<in> set (utf8_pair hi lo)"
  shows "b < 256"
proof -
  define cp where "cp = 0x10000 + (hi - 0xD800) * 1024 + (lo - 0xDC00)"
  have "cp < 5 * 262144"
    using assms(1,2) unfolding cp_def is_high_def is_low_def by linarith
  then have "cp div 262144 < 5" by (intro less_mult_imp_div_less) simp
  moreover have "cp mod 64 < 64" "(cp div 64) mod 64 < 64" "(cp div 4096) mod 64 < 64"
    by simp_all
  ultimately show ?thesis
    using assms(3) by (auto simp: utf8_pair_def Let_def cp_def [symmetric])
qed

lemma toUtf8Bytes_bytes:
  "well_formed xs \<Longrightarrow> b \<in> set (toUtf8Bytes xs) \<Longrightarrow> b < 256"
proof (induction xs rule: toUtf8Bytes.induct)
  case 1
  then show ?case by simp
next
  case (2 u)
  then show ?case using utf8_unit_bytes [of u b] by simp
next
  case (3 u l us)
  show ?case
  proof (cases "is_high u")
    case True
    with 3 show ?thesis using utf8_pair_bytes [of u l b] by auto
  next
    case False
    with 3 show ?thesis using utf8_unit_bytes [of u b] by auto
  qed
qed


lemma toUtf8Bytes_inj:
  assumes "well_formed xs" "well_formed ys" "toUtf8Bytes xs = toUtf8Bytes ys"
  shows "xs = ys"
proof -
  have "xs = fromUtf8Bytes (toUtf8Bytes xs)"
    using assms(1) by (rule fromUtf8Bytes_toUtf8Bytes [symmetric])
  also have "\<dots> = fromUtf8Bytes (toUtf8Bytes ys)" by (simp only: assms(3))
  also have "\<dots> = ys" using assms(2) by (rule fromUtf8Bytes_toUtf8Bytes)
  finally show ?thesis .
qed

lemma toUtf8_inj:
  assumes "well_formed xs" "well_formed ys" "toUtf8 xs = toUtf8 ys"
  shows "xs = ys"
proof -
  have bytes: "map of_char (toUtf8 zs) = toUtf8Bytes zs" if "well_formed zs" for zs
    using toUtf8Bytes_bytes [OF that]
    by (simp add: toUtf8_def map_idI)
  from assms(3) have "map of_char (toUtf8 xs) = (map of_char (toUtf8 ys) :: nat list)" by simp
  then have "toUtf8Bytes xs = toUtf8Bytes ys" using assms(1,2) by (simp add: bytes)
  with assms(1,2) show ?thesis by (rule toUtf8Bytes_inj)
qed

lemma toUtf8_dot:
  "toUtf8 (p @ 46 # q) = toUtf8 p @ CHR ''.'' # toUtf8 q"
proof -
  have dot: "\<not> is_low 46" "\<not> is_high 46" by (simp_all add: is_low_def is_high_def)
  have "toUtf8Bytes (46 # q) = 46 # toUtf8Bytes q"
    using dot by (cases q) (simp_all add: utf8_unit_def)
  moreover have "of_char CHR ''.'' = (46::nat)" by simp
  then have "char_of (46::nat) = CHR ''.''" by (metis char_of_char)
  ultimately show ?thesis
    using toUtf8Bytes_append [OF dot(1), of p q] by (simp add: toUtf8_def)
qed

lemma queryHashOfText_queryHash:
  "queryHashOfText w p q = queryHash w (toUtf8 p) (toUtf8 q)"
  by (simp add: queryHashOfText_def queryHash_def toUtf8_dot)

text \<open>
  C9, as claimed, fails: two query texts that differ, each a single unpaired surrogate,
  are hashed as the same bytes and get the same key for project \<open>p1\<close>, with no
  collision of the digest involved.
\<close>

theorem unpaired_surrogates_share_a_key:
  "lone_high_surrogate \<noteq> lone_low_surrogate
   \<and> toUtf8 (text_p1 @ [46] @ lone_high_surrogate) = toUtf8 (text_p1 @ [46] @ lone_low_surrogate)
   \<and> queryHashOfText example_world text_p1 lone_high_surrogate
       = queryHashOfText example_world text_p1 lone_low_surrogate"
  by (simp add: lone_high_surrogate_def lone_low_surrogate_def text_p1_def queryHashOfText_def
        toUtf8_def utf8_unit_def is_high_def is_low_def)

text \<open>
  C9, amended. The key of a project identifier and a query text is the digest of the
  UTF-8 bytes of the two joined by a dot, and is the key the cache is asked with for
  those bytes. For one project, two different query texts in which every surrogate is
  paired are hashed as different bytes, so their keys are equal exactly when the digest
  has a collision on those two byte strings.
\<close>

theorem queryHashOfText_separates_well_formed_texts:
  assumes "well_formed q1" and "well_formed q2" and "q1 \<noteq> q2"
  shows "toUtf8 (p @ [46] @ q1) \<noteq> toUtf8 (p @ [46] @ q2)
       \<and> ((queryHashOfText w p q1 = queryHashOfText w p q2)
            = (toUtf8 (p @ [46] @ q1) \<noteq> toUtf8 (p @ [46] @ q2)
               \<and> sha256_hex w (toUtf8 (p @ [46] @ q1)) = sha256_hex w (toUtf8 (p @ [46] @ q2))))
       \<and> queryHashOfText w p q1 = queryHash w (toUtf8 p) (toUtf8 q1)
       \<and> queryHashOfText w p q2 = queryHash w (toUtf8 p) (toUtf8 q2)"
proof -
  have "toUtf8 (p @ [46] @ q1) \<noteq> toUtf8 (p @ [46] @ q2)"
  proof
    assume "toUtf8 (p @ [46] @ q1) = toUtf8 (p @ [46] @ q2)"
    then have "toUtf8 q1 = toUtf8 q2" by (simp add: toUtf8_dot)
    with assms show False using toUtf8_inj by blast
  qed
  then show ?thesis by (simp add: queryHashOfText_def queryHashOfText_queryHash [symmetric])
qed

text \<open>
  C9 at work: the texts \<open>SELECT 1\<close> and \<open>SELECT 2\<close> of project \<open>p1\<close> are hashed as
  different bytes, and under the digest of the example they get different keys.
\<close>

theorem queryHashOfText_separates_well_formed_texts_witness:
  "well_formed text_select_1 \<and> well_formed text_select_2 \<and> text_select_1 \<noteq> text_select_2
   \<and> toUtf8 (text_p1 @ [46] @ text_select_1) \<noteq> toUtf8 (text_p1 @ [46] @ text_select_2)
   \<and> queryHashOfText example_world text_p1 text_select_1
       \<noteq> queryHashOfText example_world text_p1 text_select_2"
proof -
  have h1: "well_formed text_select_1"
    by (simp add: text_select_1_def is_high_def is_low_def)
  have h2: "well_formed text_select_2"
    by (simp add: text_select_2_def is_high_def is_low_def)
  have h3: "text_select_1 \<noteq> text_select_2"
    by (simp add: text_select_1_def text_select_2_def)
  have id: "sha256_hex example_world = (\<lambda>t. t)" by (simp add: example_world_def)
  from queryHashOfText_separates_well_formed_texts [OF h1 h2 h3, of text_p1 example_world]
  have "toUtf8 (text_p1 @ [46] @ text_select_1) \<noteq> toUtf8 (text_p1 @ [46] @ text_select_2)"
    by blast
  then show ?thesis using h1 h2 h3 by (simp add: queryHashOfText_def id)
qed

text \<open>
  C10. Two different pairs of project identifier and query text have the same key under
  every digest: moving text across the separating dot leaves the hashed string unchanged.
\<close>

theorem queryHash_separator_collision:
  "(''a.b'', ''c'') \<noteq> (''a'', ''b.c'')
   \<and> (\<forall>w. queryHash w ''a.b'' ''c'' = queryHash w ''a'' ''b.c'')"
  by (simp add: queryHash_def)

section \<open>Reading and writing the results cache\<close>

lemma readResultsCache_disabled:
  "\<not> resultsCacheEnabled w \<Longrightarrow> readResultsCache w k s = (Inr None, s)"
  by (simp add: readResultsCache_def resultsCacheEnabled_def split: option.splits)

lemma readResultsCache_stale:
  assumes "resultsCache (lightdashConfig w) = Some cfg" "enabled cfg"
      and "s3_getResultsMetadata w k = Inr (Some m)" "LastModified m = Some lm"
      and "cacheStateTimeSeconds cfg * 1000 \<le> now w - lm"
  shows "readResultsCache w k s = (Inr None, emit (S3GetResultsMetadata k) s)"
  using assms by (simp add: readResultsCache_def Let_def)

lemma readResultsCache_hit:
  "readResultsCache w k s = (Inr (Some r), s') \<Longrightarrow> cacheHit (cacheMetadata r)"
  by (auto simp: readResultsCache_def Let_def split: option.splits if_splits sum.splits)


lemma readResultsCache_registry:
  "readResultsCache w k s = (r, s') \<Longrightarrow>
   cachedWarehouseClients s' = cachedWarehouseClients s \<and> tunnels_opened s' = tunnels_opened s"
  by (auto simp: readResultsCache_def Let_def emit_def
           split: option.splits if_splits sum.splits)

lemma runWarehouseQueryAndStore_Inl:
  "client_runQuery w client q tags = Inl e \<Longrightarrow>
   runWarehouseQueryAndStore w k client q mq tags s
     = (Inl e, emit (WarehouseRunQuery (client_id client) q tags) s)"
  by (simp add: runWarehouseQueryAndStore_def Let_def)

lemma runWarehouseQueryAndStore_off:
  "\<not> resultsCacheEnabled w \<Longrightarrow> client_runQuery w client q tags = Inr wr \<Longrightarrow>
   runWarehouseQueryAndStore w k client q mq tags s
     = (Inr \<lparr>result_rows = rows wr,
             cacheMetadata = \<lparr>cacheHit = False, cacheUpdatedTime = None\<rparr>\<rparr>,
        emit (WarehouseRunQuery (client_id client) q tags) s)"
  by (simp add: runWarehouseQueryAndStore_def Let_def)

lemma runWarehouseQueryAndStore_unserializable:
  "resultsCacheEnabled w \<Longrightarrow> client_runQuery w client q tags = Inr wr \<Longrightarrow>
   json_stringify w wr = Inl e \<Longrightarrow>
   runWarehouseQueryAndStore w k client q mq tags s
     = (Inl e, emit (WarehouseRunQuery (client_id client) q tags) s)"
  by (simp add: runWarehouseQueryAndStore_def Let_def)

lemma runWarehouseQueryAndStore_on:
  "resultsCacheEnabled w \<Longrightarrow> client_runQuery w client q tags = Inr wr \<Longrightarrow>
   json_stringify w wr = Inr buffer \<Longrightarrow>
   runWarehouseQueryAndStore w k client q mq tags s
     = (Inr \<lparr>result_rows = rows wr,
             cacheMetadata = \<lparr>cacheHit = False, cacheUpdatedTime = None\<rparr>\<rparr>,
        emit (S3UploadResults k buffer tags)
          (emit (WarehouseRunQuery (client_id client) q tags) s
             \<lparr>detached := detached s @ [(k, buffer, tags)]\<rparr>))"
  by (simp add: runWarehouseQueryAndStore_def Let_def emit_def)

lemma runWarehouseQueryAndStore_registry:
  "runWarehouseQueryAndStore w k client q mq tags s = (r, s') \<Longrightarrow>
   cachedWarehouseClients s' = cachedWarehouseClients s \<and> tunnels_opened s' = tunnels_opened s"
  by (auto simp: runWarehouseQueryAndStore_def Let_def emit_def split: sum.splits if_splits)

lemma getResultsFromCacheOrWarehouse_registry:
  assumes "getResultsFromCacheOrWarehouse w p client q mq tags s = (r, s')"
  shows "cachedWarehouseClients s' = cachedWarehouseClients s
       \<and> tunnels_opened s' = tunnels_opened s"
proof -
  obtain r0 s0 where rd: "readResultsCache w (queryHash w p q) s = (r0, s0)"
    by (cases "readResultsCache w (queryHash w p q) s")
  note f0 = readResultsCache_registry [OF rd]
  show ?thesis
    using assms rd f0
    by (auto simp: getResultsFromCacheOrWarehouse_def Let_def
             dest!: runWarehouseQueryAndStore_registry split: sum.splits option.splits)
qed

lemma getWarehouseClient_frame:
  "getWarehouseClient w p s = (res, s') \<Longrightarrow>
   filter is_cache_request (trace s') = filter is_cache_request (trace s)
   \<and> detached s' = detached s"
  by (auto simp: getWarehouseClient_def sshTunnel_connect_def createAndCacheClient_def
        getWarehouseClientFromCredentials_def emit_def Let_def
        split: sum.splits option.splits if_splits prod.splits)

lemma sshTunnel_disconnect_frame:
  "sshTunnel_disconnect w t s = (res, s') \<Longrightarrow>
   trace s' = trace s @ [TunnelDisconnect (originalCredentials t)]
   \<and> detached s' = detached s \<and> cachedWarehouseClients s' = cachedWarehouseClients s
   \<and> tunnels_opened s' = tunnels_opened s"
  by (auto simp: sshTunnel_disconnect_def emit_def Let_def split: option.splits)

lemma settleDetached_total:
  "detached (settleDetached w s) = []
   \<and> cachedWarehouseClients (settleDetached w s) = cachedWarehouseClients s
   \<and> length (trace (settleDetached w s)) = length (trace s) + length (detached s)"
  by (simp add: settleDetached_def)

lemma runQuery_keeps_invariant:
  assumes inv: "registry_from_earlier_sessions (open_tunnel w) s"
      and run: "runQuery w p q tags s = (r, s')"
  shows "registry_from_earlier_sessions (open_tunnel w) s'"
proof -
  obtain r1 s1 where gc: "getWarehouseClient w p s = (r1, s1)"
    by (cases "getWarehouseClient w p s")
  note inv1 = getWarehouseClient_keeps_invariant [OF inv gc]
  have "cachedWarehouseClients s' = cachedWarehouseClients s1
      \<and> tunnels_opened s' = tunnels_opened s1"
    using run gc
    by (auto simp: runQuery_def Let_def emit_def dest!: sshTunnel_disconnect_frame
             split: sum.splits prod.splits)
  then show ?thesis
    using inv1 by (intro registry_from_earlier_sessions_kept [of _ s1 s']) simp_all
qed

lemma runMetricQuery_keeps_invariant:
  assumes inv: "registry_from_earlier_sessions (open_tunnel w) s"
      and run: "runMetricQuery w org p u mq tags ex s = (r, s')"
  shows "registry_from_earlier_sessions (open_tunnel w) s'"
proof -
  obtain r1 s1 where gc: "getWarehouseClient w p s = (r1, s1)"
    by (cases "getWarehouseClient w p s")
  note inv1 = getWarehouseClient_keeps_invariant [OF inv gc]
  have "cachedWarehouseClients s' = cachedWarehouseClients s1
      \<and> tunnels_opened s' = tunnels_opened s1"
    using run gc
    by (auto simp: runMetricQuery_def Let_def
             dest!: sshTunnel_disconnect_frame getResultsFromCacheOrWarehouse_registry
             split: sum.splits prod.splits)
  then show ?thesis
    using inv1 by (intro registry_from_earlier_sessions_kept [of _ s1 s']) simp_all
qed

subsection \<open>Stale entries\<close>

text \<open>
  C4. Caching is enabled and the entry for the query's key is as old as the threshold or
  older (the age is the clock minus \<^verbatim>\<open>LastModified\<close>, the threshold is
  \<^verbatim>\<open>cacheStateTimeSeconds * 1000\<close>; equality counts as stale). Then the read returns
  no rows and does not request the payload, and \<^verbatim>\<open>runMetricQuery\<close> hands the query
  to the warehouse: after the metadata request the next event is the warehouse query and
  there is no payload request. The outcome of the call is the warehouse's: its error when
  the driver throws, and otherwise, when the results serialize and the tunnel closes, the
  rows the warehouse returned, marked \<open>cacheHit = False\<close>.
\<close>

theorem stale_entry_not_served:
  assumes cfg: "resultsCache (lightdashConfig w) = Some cfg" "enabled cfg"
      and meta: "s3_getResultsMetadata w (queryHash w p q) = Inr (Some m)"
                "LastModified m = Some lm"
      and stale: "cacheStateTimeSeconds cfg * 1000 \<le> now w - lm"
      and client: "getWarehouseClient w p s = (Inr (client, t), s1)"
      and attrs: "getAttributeValuesForOrgMember w org u = Inr userAttributes"
      and compiled: "compileMetricQuery w ex mq client = Inr cm"
      and built: "buildQuery w ex cm client userAttributes = Inr (q, h)"
  shows "readResultsCache w (queryHash w p q) s0
           = (Inr None, emit (S3GetResultsMetadata (queryHash w p q)) s0)
       \<and> getResultsFromCacheOrWarehouse w p c0 q mq tags s0
           = runWarehouseQueryAndStore w (queryHash w p q) c0 q mq tags
               (emit (S3GetResultsMetadata (queryHash w p q)) s0)
       \<and> (\<exists>s'.
             runMetricQuery w org p u mq tags ex s =
               (case client_runQuery w client q tags of
                  Inl e \<Rightarrow> Inl e
                | Inr wr \<Rightarrow>
                    (case json_stringify w wr of
                       Inl e \<Rightarrow> Inl e
                     | Inr buffer \<Rightarrow>
                         (case close_tunnel w (originalCredentials t) of
                            Some e \<Rightarrow> Inl e
                          | None \<Rightarrow>
                              Inr \<lparr>mq_rows = rows wr,
                                   mq_cacheMetadata =
                                     \<lparr>cacheHit = False, cacheUpdatedTime = None\<rparr>,
                                   mq_query = q, hasExampleMetric = h,
                                   warehouseType = cred_type (credentials client)\<rparr>)),
                s')
           \<and> trace s' =
               trace s1 @ [S3GetResultsMetadata (queryHash w p q),
                           WarehouseRunQuery (client_id client) q tags]
                 @ (case client_runQuery w client q tags of
                      Inl e \<Rightarrow> []
                    | Inr wr \<Rightarrow>
                        (case json_stringify w wr of
                           Inl e \<Rightarrow> []
                         | Inr buffer \<Rightarrow>
                             [S3UploadResults (queryHash w p q) buffer tags,
                              TunnelDisconnect (originalCredentials t)])))"
proof -
  let ?k = "queryHash w p q"
  note rd = readResultsCache_stale [OF cfg meta stale]
  have gr: "getResultsFromCacheOrWarehouse w p c q mq tags s''
      = runWarehouseQueryAndStore w ?k c q mq tags (emit (S3GetResultsMetadata ?k) s'')"
    for c s''
    by (simp add: getResultsFromCacheOrWarehouse_def rd Let_def)
  have on: "resultsCacheEnabled w" using cfg by (simp add: resultsCacheEnabled_def)
  have rm: "\<exists>s'.
             runMetricQuery w org p u mq tags ex s =
               (case client_runQuery w client q tags of
                  Inl e \<Rightarrow> Inl e
                | Inr wr \<Rightarrow>
                    (case json_stringify w wr of
                       Inl e \<Rightarrow> Inl e
                     | Inr buffer \<Rightarrow>
                         (case close_tunnel w (originalCredentials t) of
                            Some e \<Rightarrow> Inl e
                          | None \<Rightarrow>
                              Inr \<lparr>mq_rows = rows wr,
                                   mq_cacheMetadata =
                                     \<lparr>cacheHit = False, cacheUpdatedTime = None\<rparr>,
                                   mq_query = q, hasExampleMetric = h,
                                   warehouseType = cred_type (credentials client)\<rparr>)),
                s')
           \<and> trace s' =
               trace s1 @ [S3GetResultsMetadata ?k,
                           WarehouseRunQuery (client_id client) q tags]
                 @ (case client_runQuery w client q tags of
                      Inl e \<Rightarrow> []
                    | Inr wr \<Rightarrow>
                        (case json_stringify w wr of
                           Inl e \<Rightarrow> []
                         | Inr buffer \<Rightarrow>
                             [S3UploadResults ?k buffer tags,
                              TunnelDisconnect (originalCredentials t)]))"
  proof (cases "client_runQuery w client q tags")
    case (Inl e)
    show ?thesis
      using client attrs compiled built Inl
      by (simp add: runMetricQuery_def Let_def gr runWarehouseQueryAndStore_Inl [OF Inl] emit_def)
  next
    case (Inr wr)
    show ?thesis
    proof (cases "json_stringify w wr")
      case (Inl e)
      show ?thesis
        using client attrs compiled built Inr Inl
        by (simp add: runMetricQuery_def Let_def gr emit_def
              runWarehouseQueryAndStore_unserializable [OF on Inr Inl])
    next
      case buf: (Inr buffer)
      show ?thesis
        using client attrs compiled built Inr buf
        by (cases "close_tunnel w (originalCredentials t)")
           (simp_all add: runMetricQuery_def Let_def gr emit_def sshTunnel_disconnect_def
              runWarehouseQueryAndStore_on [OF on Inr buf])
    qed
  qed
  show ?thesis using rd gr rm by blast
qed

text \<open>
  C4 on the boundary: the entry was written at 0, the clock reads 3600000 and the
  threshold is 3600 seconds, so the age equals the threshold. The entry is not served:
  the call returns the warehouse's rows, not the cached ones, and its trace has the
  metadata request, the warehouse query, the upload and the disconnect.
\<close>

theorem stale_entry_not_served_witness:
  "resultsCache (lightdashConfig example_world)
       = Some \<lparr>enabled = True, cacheStateTimeSeconds = 3600\<rparr>
   \<and> s3_getResultsMetadata example_world (queryHash example_world ''p1'' ''SELECT 1'')
       = Inr (Some \<lparr>LastModified = Some 0\<rparr>)
   \<and> now example_world - 0 = 3600 * 1000
   \<and> s3_getResults example_world (queryHash example_world ''p1'' ''SELECT 1'')
       = Inr (Some ''payload'')
   \<and> json_parse_rows example_world ''payload'' = Some [[(''orders_count'', ''41'')]]
   \<and> readResultsCache example_world (queryHash example_world ''p1'' ''SELECT 1'')
        state_after_resolution
       = (Inr None,
          emit (S3GetResultsMetadata (queryHash example_world ''p1'' ''SELECT 1''))
            state_after_resolution)
   \<and> fst (runMetricQuery example_world ''org1'' ''p1'' ''u1'' ''mq'' None ''explore''
            initial_state) = Inr example_metric_results
   \<and> mq_rows example_metric_results = [[(''orders_count'', ''42'')]]
   \<and> trace (snd (runMetricQuery example_world ''org1'' ''p1'' ''u1'' ''mq'' None ''explore''
                   initial_state))
       = [TunnelConnect example_credentials, ClientConstructed 0,
          S3GetResultsMetadata ''p1.SELECT 1'', WarehouseRunQuery 0 ''SELECT 1'' None,
          S3UploadResults ''p1.SELECT 1'' ''payload'' None,
          TunnelDisconnect example_credentials]"
proof -
  let ?cfg = "\<lparr>enabled = True, cacheStateTimeSeconds = 3600\<rparr>"
  let ?m = "\<lparr>LastModified = Some 0\<rparr>"
  have h1: "resultsCache (lightdashConfig example_world) = Some ?cfg"
    by (simp add: example_world_def)
  have h2: "enabled ?cfg" by simp
  have h3: "s3_getResultsMetadata example_world (queryHash example_world ''p1'' ''SELECT 1'')
              = Inr (Some ?m)"
    by (simp add: example_world_def)
  have h4: "LastModified ?m = Some 0" by simp
  have age: "now example_world - 0 = 3600 * 1000" by (simp add: example_world_def)
  have h5: "cacheStateTimeSeconds ?cfg * 1000 \<le> now example_world - 0"
    by (simp add: example_world_def)
  obtain userAttributes where
    h6: "getAttributeValuesForOrgMember example_world ''org1'' ''u1'' = Inr userAttributes"
    by (simp add: getAttributeValuesForOrgMember_def example_world_def Let_def)
  have h7: "compileMetricQuery example_world ''explore'' ''mq'' client0 = Inr ''mq''"
    by (simp add: example_world_def)
  have h8: "buildQuery example_world ''explore'' ''mq'' client0 userAttributes
              = Inr (''SELECT 1'', False)"
    by (simp add: example_world_def)
  have payload: "s3_getResults example_world (queryHash example_world ''p1'' ''SELECT 1'')
       = Inr (Some ''payload'')"
    "json_parse_rows example_world ''payload'' = Some [[(''orders_count'', ''41'')]]"
    by (simp_all add: example_world_def)
  have answers: "client_runQuery example_world client0 ''SELECT 1'' None
        = Inr \<lparr>result_fields = [''orders_count''], rows = example_rows\<rparr>"
      "json_stringify example_world \<lparr>result_fields = [''orders_count''], rows = example_rows\<rparr>
        = Inr ''payload''"
      "close_tunnel example_world example_credentials = None"
      "queryHash example_world ''p1'' ''SELECT 1'' = ''p1.SELECT 1''"
    by (simp_all add: example_world_def queryHash_def)
  have known: "trace state_after_resolution = [TunnelConnect example_credentials, ClientConstructed 0]"
    "client_id client0 = 0" "cred_type (credentials client0) = ''postgres''"
    "mq_rows example_metric_results = [[(''orders_count'', ''42'')]]"
    by (simp_all add: state_after_resolution_def client0_def example_credentials_def
          example_metric_results_def example_rows_def)
  from stale_entry_not_served [OF h1 h2 h3 h4 h5 example_getWarehouseClient h6 h7 h8,
         where tags = None and ?s0.0 = state_after_resolution and ?c0.0 = client0]
  obtain s' where
    rd: "readResultsCache example_world (queryHash example_world ''p1'' ''SELECT 1'')
           state_after_resolution
         = (Inr None,
            emit (S3GetResultsMetadata (queryHash example_world ''p1'' ''SELECT 1''))
              state_after_resolution)"
    and run: "runMetricQuery example_world ''org1'' ''p1'' ''u1'' ''mq'' None ''explore''
                initial_state = (Inr example_metric_results, s')"
    and tr: "trace s' = [TunnelConnect example_credentials, ClientConstructed 0,
          S3GetResultsMetadata ''p1.SELECT 1'', WarehouseRunQuery 0 ''SELECT 1'' None,
          S3UploadResults ''p1.SELECT 1'' ''payload'' None,
          TunnelDisconnect example_credentials]"
    by (auto simp: answers known example_metric_results_def)
  show ?thesis
    using h1 h3 age payload rd run tr known(4) by simp
qed

subsection \<open>Failures of the object store on the read path\<close>

lemma metadata_failure_is_a_miss:
  assumes "resultsCache (lightdashConfig w) = Some cfg" "enabled cfg"
      and "s3_getResultsMetadata w k = Inl e"
  shows "readResultsCache w k s = (Inr None, emit (S3GetResultsMetadata k) s)"
  using assms by (simp add: readResultsCache_def Let_def)

lemma payload_failure_is_thrown:
  assumes "resultsCache (lightdashConfig w) = Some cfg" "enabled cfg"
      and "s3_getResultsMetadata w k = Inr (Some m)" "LastModified m = Some lm"
      and "now w - lm < cacheStateTimeSeconds cfg * 1000"
      and "s3_getResults w k = Inl e"
  shows "readResultsCache w k s
           = (Inl e, emit (S3GetResults k) (emit (S3GetResultsMetadata k) s))"
  using assms by (simp add: readResultsCache_def Let_def)

text \<open>
  C2 at the input where it fails. Caching is enabled, the entry is one second old, and
  the object store fails the payload request. \<^verbatim>\<open>runMetricQuery\<close> ends with that
  failure; the warehouse is never asked. When it is the metadata request that fails, the
  call goes on to the warehouse and returns its rows with \<open>cacheHit = False\<close>.
\<close>

theorem payload_fetch_failure_reaches_caller:
  "resultsCacheEnabled payload_outage_world
   \<and> fst (runMetricQuery payload_outage_world ''org1'' ''p1'' ''u1'' ''mq'' None ''explore''
            initial_state)
     = Inl (Thrown ''S3 unavailable'')
   \<and> trace (snd (runMetricQuery payload_outage_world ''org1'' ''p1'' ''u1'' ''mq'' None
                   ''explore'' initial_state))
     = [TunnelConnect example_credentials, ClientConstructed 0,
        S3GetResultsMetadata ''p1.SELECT 1'', S3GetResults ''p1.SELECT 1'']
   \<and> fst (runMetricQuery metadata_outage_world ''org1'' ''p1'' ''u1'' ''mq'' None ''explore''
            initial_state)
     = Inr \<lparr>mq_rows = example_rows,
            mq_cacheMetadata = \<lparr>cacheHit = False, cacheUpdatedTime = None\<rparr>,
            mq_query = ''SELECT 1'', hasExampleMetric = False, warehouseType = ''postgres''\<rparr>"
  by (simp add: payload_outage_world_def metadata_outage_world_def eval_defs)

subsection \<open>The write\<close>









subsection \<open>Caching disabled\<close>

lemma getResultsFromCacheOrWarehouse_disabled:
  assumes "\<not> resultsCacheEnabled w"
  shows "getResultsFromCacheOrWarehouse w p client q mq tags s =
      (case client_runQuery w client q tags of
         Inl e \<Rightarrow> (Inl e, emit (WarehouseRunQuery (client_id client) q tags) s)
       | Inr wr \<Rightarrow>
           (Inr \<lparr>result_rows = rows wr,
                 cacheMetadata = \<lparr>cacheHit = False, cacheUpdatedTime = None\<rparr>\<rparr>,
            emit (WarehouseRunQuery (client_id client) q tags) s))"
  using assms
  by (simp add: getResultsFromCacheOrWarehouse_def readResultsCache_disabled Let_def
        runWarehouseQueryAndStore_Inl runWarehouseQueryAndStore_off split: sum.splits)

text \<open>
  C8. With results caching disabled in the configuration, the step between client
  resolution and disconnect is the warehouse query and nothing else: its only event is
  the query, and its result is the warehouse's failure or the warehouse's rows with
  \<open>cacheHit = False\<close>. A whole \<^verbatim>\<open>runMetricQuery\<close> call issues no request to the
  object store (no metadata read, no payload read, no upload) and leaves no detached
  upload; when it succeeds its result has \<open>cacheHit = False\<close> and the rows the
  warehouse returned for the query.
\<close>

theorem caching_disabled_bypasses_cache:
  assumes off: "\<not> resultsCacheEnabled w"
      and run: "runMetricQuery w org p u mq tags ex s = (res, s')"
  shows "getResultsFromCacheOrWarehouse w p client q mq tags s0 =
           (case client_runQuery w client q tags of
              Inl e \<Rightarrow> (Inl e, emit (WarehouseRunQuery (client_id client) q tags) s0)
            | Inr wr \<Rightarrow>
                (Inr \<lparr>result_rows = rows wr,
                      cacheMetadata = \<lparr>cacheHit = False, cacheUpdatedTime = None\<rparr>\<rparr>,
                 emit (WarehouseRunQuery (client_id client) q tags) s0))
         \<and> filter is_cache_request (trace s') = filter is_cache_request (trace s)
         \<and> detached s' = detached s
         \<and> (case res of
              Inl e \<Rightarrow> True
            | Inr r \<Rightarrow> \<not> cacheHit (mq_cacheMetadata r)
                \<and> (\<exists>c wr. client_runQuery w c (mq_query r) tags = Inr wr \<and> mq_rows r = rows wr))"
proof -
  note gr = getResultsFromCacheOrWarehouse_disabled [OF off]
  have fr: "filter is_cache_request (trace s') = filter is_cache_request (trace s)
      \<and> detached s' = detached s
      \<and> (case res of
              Inl e \<Rightarrow> True
            | Inr r \<Rightarrow> \<not> cacheHit (mq_cacheMetadata r)
                \<and> (\<exists>c wr. client_runQuery w c (mq_query r) tags = Inr wr \<and> mq_rows r = rows wr))"
  proof (cases "getWarehouseClient w p s")
    case (Pair r1 s1)
    note f1 = getWarehouseClient_frame [OF Pair]
    show ?thesis
    proof (cases r1)
      case (Inl e)
      with run Pair f1 show ?thesis by (auto simp: runMetricQuery_def)
    next
      case (Inr ct)
      obtain client t where ct: "ct = (client, t)" by (cases ct)
      show ?thesis
        using run Pair Inr ct f1
        by (auto simp: runMetricQuery_def Let_def gr emit_def
              dest!: sshTunnel_disconnect_frame split: sum.splits prod.splits)
           blast+
    qed
  qed
  show ?thesis using gr fr by simp
qed

text \<open>C8 at work: the example installation with caching switched off.\<close>

theorem caching_disabled_bypasses_cache_witness:
  "\<not> resultsCacheEnabled caching_off_world
   \<and> runMetricQuery caching_off_world ''org1'' ''p1'' ''u1'' ''mq'' None ''explore''
        initial_state = (Inr off_results, off_state)
   \<and> filter is_cache_request (trace off_state) = []
   \<and> detached off_state = []
   \<and> \<not> cacheHit (mq_cacheMetadata off_results)
   \<and> (\<exists>c wr. client_runQuery caching_off_world c (mq_query off_results) None = Inr wr
            \<and> mq_rows off_results = rows wr)"
proof -
  have h1: "\<not> resultsCacheEnabled caching_off_world"
    by (simp add: resultsCacheEnabled_def caching_off_world_def)
  have h2: "runMetricQuery caching_off_world ''org1'' ''p1'' ''u1'' ''mq'' None ''explore''
              initial_state = (Inr off_results, off_state)"
    by (simp add: caching_off_world_def off_results_def off_state_def
          state_after_resolution_def client0_def eval_defs)
  have i: "filter is_cache_request (trace initial_state) = []" "detached initial_state = []"
    by (simp_all add: initial_state_def)
  show ?thesis
    using caching_disabled_bypasses_cache [OF h1 h2, where client = client0
              and q = "''SELECT 1''" and ?s0.0 = initial_state]
      h1 h2 i
    by simp
qed

section \<open>The tunnel over a call\<close>

lemma runQuery_success_disconnects_once:
  assumes "getWarehouseClient w p s = (Inr (client, t), s1)"
      and "client_runQuery w client q tags = Inr results"
  shows "trace (snd (runQuery w p q tags s))
           = trace s1 @ [WarehouseRunQuery (client_id client) q tags,
                         TunnelDisconnect (originalCredentials t)]"
  using assms
  by (cases "close_tunnel w (originalCredentials t)")
     (simp_all add: runQuery_def sshTunnel_disconnect_def emit_def Let_def)

lemma runMetricQuery_success_disconnects_last:
  assumes "runMetricQuery w org p u mq tags ex s = (Inr r, s')"
  shows "\<exists>t. trace s' \<noteq> [] \<and> last (trace s') = TunnelDisconnect t"
  using assms
  by (auto simp: runMetricQuery_def Let_def dest!: sshTunnel_disconnect_frame
           split: sum.splits prod.splits)

lemma runQuery_failure_skips_disconnect:
  assumes "getWarehouseClient w p s = (Inr (client, t), s1)"
      and "client_runQuery w client q tags = Inl e"
  shows "runQuery w p q tags s
           = (Inl e, s1\<lparr>trace := trace s1 @ [WarehouseRunQuery (client_id client) q tags]\<rparr>)"
  using assms by (simp add: runQuery_def emit_def Let_def)

lemma runMetricQuery_failure_skips_disconnect:
  assumes "getWarehouseClient w p s = (Inr (client, t), s1)"
      and "getAttributeValuesForOrgMember w org u = Inr userAttributes"
      and "compileMetricQuery w ex mq client = Inr cm"
      and "buildQuery w ex cm client userAttributes = Inr (q, h)"
      and "getResultsFromCacheOrWarehouse w p client q mq tags s1 = (Inl e, s2)"
  shows "runMetricQuery w org p u mq tags ex s = (Inl e, s2)"
  using assms by (simp add: runMetricQuery_def Let_def)

text \<open>
  C1 at the input where it fails. The project is reached through an SSH tunnel and the
  warehouse driver rejects the query. \<^verbatim>\<open>runQuery\<close> and \<^verbatim>\<open>runMetricQuery\<close> both
  end with the driver's error, and their traces show the tunnel connecting and no call of
  \<^verbatim>\<open>disconnect\<close>. On the success path of the same installation the trace ends with
  the one call of \<^verbatim>\<open>disconnect\<close>.
\<close>

theorem tunnel_left_connected_when_warehouse_throws:
  "fst (runQuery warehouse_down_world ''p1'' ''SELECT 1'' None initial_state)
     = Inl (Thrown ''connection terminated'')
   \<and> trace (snd (runQuery warehouse_down_world ''p1'' ''SELECT 1'' None initial_state))
     = [TunnelConnect tunnelled_credentials, ClientConstructed 0,
        WarehouseRunQuery 0 ''SELECT 1'' None]
   \<and> fst (runMetricQuery warehouse_down_world ''org1'' ''p1'' ''u1'' ''mq'' None ''explore''
            initial_state)
     = Inl (Thrown ''connection terminated'')
   \<and> trace (snd (runMetricQuery warehouse_down_world ''org1'' ''p1'' ''u1'' ''mq'' None
                   ''explore'' initial_state))
     = [TunnelConnect tunnelled_credentials, ClientConstructed 0,
        S3GetResultsMetadata ''p1.SELECT 1'', WarehouseRunQuery 0 ''SELECT 1'' None]
   \<and> trace (snd (runQuery ssh_world ''p1'' ''SELECT 1'' None initial_state))
     = [TunnelConnect tunnelled_credentials, ClientConstructed 0,
        WarehouseRunQuery 0 ''SELECT 1'' None, TunnelDisconnect ssh_credentials]"
  by (simp add: warehouse_down_world_def tunnelled_credentials_def eval_defs)

end
